theory Spec2Isabelle
  imports Complex_Main "HOL-Library.Sublist" "HOL-Library.Char_ord" "HOL-Library.List_Lexorder"
begin

section \<open>Values, frames and the library the code calls\<close>

text \<open>
  A cell of a table or a filter value is a Python scalar: \<open>None\<close>, the float NaN, a
  number, a string or a timestamp. Numbers are modelled by their value (Python's
  \<open>25 == 25.0\<close>): a whole number and the float of the same value are one number here.
  A frame has no storage types of its own in the model; where pandas decides by the
  storage type of a column, the model decides by the cells, and the texts below say
  where the two part.
\<close>

datatype scalar = PyNone | NaN | Num real | Str string | Timestamp int

text \<open>A filter value is a scalar, a list (multi-select) or a tuple (range).\<close>

datatype pyvalue = Scalar scalar | PyList "scalar list" | PyTuple "scalar list"

datatype error = ValueError | TypeError | ReError

text \<open>
  A record of a table is a dictionary from column name to cell (an association list, in
  key order). A DataFrame has its column labels and its rows, each row with its index
  label.
\<close>

type_synonym row = "(string \<times> scalar) list"

record dataframe =
  columns :: "string list"
  rows :: "(nat \<times> row) list"

text \<open>
  The functions of Python and pandas that the code calls and whose results depend on
  text parsing, float formatting or the library version are parameters:
  \<^item> \<open>py_float s\<close>: \<open>float(s)\<close> of a string, \<open>None\<close> when it raises ValueError
    (the literals that give NaN or an infinity are not modelled);
  \<^item> \<open>num_str\<close>, \<open>ts_str\<close>: \<open>str(x)\<close> of a number and of a timestamp;
  \<^item> \<open>seq_str\<close>: \<open>str(v)\<close> of a list or tuple;
  \<^item> \<open>null_astype\<close>: what \<open>Series.astype(str)\<close> makes of a null cell: \<open>Some\<close> of the
    string \<open>'None'\<close> or \<open>'nan'\<close> where the library stringifies nulls, \<open>None\<close> where it keeps
    them missing;
  \<^item> \<open>re_compile pat\<close>: the regular expression \<open>pat\<close> compiled to ignore case, as
    the test whether it matches somewhere in a string; \<open>None\<close> when \<open>pat\<close> does not
    compile;
  \<^item> \<open>float64 x\<close>: the float64 value that storing the number \<open>x\<close> in a float column
    gives (\<open>x\<close> itself when it is a float64 value);
  \<^item> \<open>seq_compare op col vs\<close>: the pandas comparison \<open>col op vs\<close> of a column with a
    list or tuple operand, which depends on the storage type of the column;
  \<^item> \<open>to_datetime v\<close>: \<open>pd.to_datetime(v)\<close> of a scalar, \<open>None\<close> when it raises;
  \<^item> \<open>to_datetime_series ss\<close>: whether \<open>pd.to_datetime(ss, errors='raise')\<close> of a
    series of strings returns.
\<close>

record pylib =
  py_float :: "string \<Rightarrow> real option"
  num_str :: "real \<Rightarrow> string"
  ts_str :: "int \<Rightarrow> string"
  seq_str :: "pyvalue \<Rightarrow> string"
  null_astype :: "scalar \<Rightarrow> string option"
  re_compile :: "string \<Rightarrow> (string \<Rightarrow> bool) option"
  float64 :: "real \<Rightarrow> real"
  seq_compare :: "string \<Rightarrow> scalar list \<Rightarrow> scalar list \<Rightarrow> error + bool list"
  to_datetime :: "scalar \<Rightarrow> scalar option"
  to_datetime_series :: "string list \<Rightarrow> bool"

definition isnull :: "scalar \<Rightarrow> bool" where
  "isnull c = (c = PyNone \<or> c = NaN)"

text \<open>
  \<open>str(x)\<close> of a scalar and of a filter value. A number has the one string form
  \<open>num_str\<close> gives it; Python prints the int 25 as \<open>'25'\<close> and the float 25.0 as
  \<open>'25.0'\<close>, which the model does not tell apart.
\<close>

fun scalar_str :: "pylib \<Rightarrow> scalar \<Rightarrow> string" where
  "scalar_str L PyNone = ''None''"
| "scalar_str L NaN = ''nan''"
| "scalar_str L (Num x) = num_str L x"
| "scalar_str L (Str s) = s"
| "scalar_str L (Timestamp t) = ts_str L t"

fun value_str :: "pylib \<Rightarrow> pyvalue \<Rightarrow> string" where
  "value_str L (Scalar v) = scalar_str L v"
| "value_str L v = seq_str L v"

text \<open>\<open>col.astype(str)\<close>, cell by cell: \<open>None\<close> is a cell that stays missing.\<close>

definition astype_str :: "pylib \<Rightarrow> scalar \<Rightarrow> string option" where
  "astype_str L c = (if isnull c then null_astype L c else Some (scalar_str L c))"

text \<open>
  Python's ordering of two scalars: numbers with numbers (every comparison with NaN is
  false), strings with strings by code point, timestamps with timestamps; anything else
  raises TypeError.
\<close>

fun py_lt :: "scalar \<Rightarrow> scalar \<Rightarrow> error + bool" where
  "py_lt (Num x) (Num y) = Inr (x < y)"
| "py_lt NaN (Num y) = Inr False"
| "py_lt (Num x) NaN = Inr False"
| "py_lt NaN NaN = Inr False"
| "py_lt (Str a) (Str b) = Inr (a < b)"
| "py_lt (Timestamp s) (Timestamp t) = Inr (s < t)"
| "py_lt _ _ = Inl TypeError"

definition py_gt :: "scalar \<Rightarrow> scalar \<Rightarrow> error + bool" where
  "py_gt a b = py_lt b a"

fun py_le :: "scalar \<Rightarrow> scalar \<Rightarrow> error + bool" where
  "py_le (Num x) (Num y) = Inr (x \<le> y)"
| "py_le NaN (Num y) = Inr False"
| "py_le (Num x) NaN = Inr False"
| "py_le NaN NaN = Inr False"
| "py_le (Str a) (Str b) = Inr (a \<le> b)"
| "py_le (Timestamp s) (Timestamp t) = Inr (s \<le> t)"
| "py_le _ _ = Inl TypeError"

definition py_ge :: "scalar \<Rightarrow> scalar \<Rightarrow> error + bool" where
  "py_ge a b = py_le b a"

text \<open>A list of results is a result: the first error, or all the values.\<close>

fun collect :: "(error + 'a) list \<Rightarrow> error + 'a list" where
  "collect [] = Inr []"
| "collect (Inl e # xs) = Inl e"
| "collect (Inr x # xs) = (case collect xs of Inl e \<Rightarrow> Inl e | Inr ys \<Rightarrow> Inr (x # ys))"

text \<open>
  A pandas comparison of a column with a scalar (\<open>col > v\<close>), element by element: a
  null cell gives False, a null \<open>v\<close> gives False everywhere, and a pair of values that
  Python cannot order raises TypeError. This is the comparison of a column of objects.
  On a float column pandas refuses a string by the storage type, also when every cell
  is null or there is no row, and on a datetime column it converts a string to a
  timestamp before comparing; the model has neither.
\<close>

definition series_cmp ::
  "(scalar \<Rightarrow> scalar \<Rightarrow> error + bool) \<Rightarrow> scalar list \<Rightarrow> scalar \<Rightarrow> error + bool list" where
  "series_cmp cmp col v =
     (if isnull v then Inr (map (\<lambda>c. False) col)
      else collect (map (\<lambda>c. if isnull c then Inr False else cmp c v) col))"

text \<open>
  \<open>col == v\<close>: never raises; a null on either side is unequal to everything. The
  values are compared as they are. That is the code's comparison when the numbers are
  float64 values (pandas compares an integer cell with a float after rounding it to
  float64) and no string meets a column of timestamps (pandas converts the string
  first); the same holds for \<open>isin\<close> below.
\<close>

definition series_eq :: "scalar list \<Rightarrow> scalar \<Rightarrow> bool list" where
  "series_eq col v = map (\<lambda>c. \<not> isnull c \<and> \<not> isnull v \<and> c = v) col"

text \<open>
  \<open>col.isin(values)\<close>: membership of the cell in the list. pandas's \<open>isin\<close> finds a
  NaN cell in a list that holds NaN (and a \<open>None\<close> cell in a list that holds \<open>None\<close>).
\<close>

definition isin :: "scalar list \<Rightarrow> scalar list \<Rightarrow> bool list" where
  "isin col vs = map (\<lambda>c. c \<in> set vs) col"

text \<open>
  The \<open>.str\<close> tests after \<open>astype(str)\<close>, with \<open>na=False\<close>: a cell that is still
  missing gives False. \<open>contains\<close> is a regular-expression search ignoring case
  (\<open>case=False\<close>, \<open>regex\<close> left at its default), and the pattern is compiled
  before any cell is looked at; \<open>startswith\<close> and \<open>endswith\<close> compare the characters
  as they are.
\<close>

definition str_contains :: "pylib \<Rightarrow> string option list \<Rightarrow> string \<Rightarrow> error + bool list" where
  "str_contains L col pat =
     (case re_compile L pat of
        None \<Rightarrow> Inl ReError
      | Some found \<Rightarrow> Inr (map (\<lambda>c. case c of None \<Rightarrow> False | Some s \<Rightarrow> found s) col))"

definition str_startswith :: "string option list \<Rightarrow> string \<Rightarrow> bool list" where
  "str_startswith col pat = map (\<lambda>c. case c of None \<Rightarrow> False | Some s \<Rightarrow> prefix pat s) col"

definition str_endswith :: "string option list \<Rightarrow> string \<Rightarrow> bool list" where
  "str_endswith col pat = map (\<lambda>c. case c of None \<Rightarrow> False | Some s \<Rightarrow> suffix pat s) col"

text \<open>\<open>df[name]\<close> (a missing key of a row reads as NaN) and \<open>df[mask]\<close>.\<close>

definition cell :: "row \<Rightarrow> string \<Rightarrow> scalar" where
  "cell r name = (case map_of r name of None \<Rightarrow> NaN | Some v \<Rightarrow> v)"

definition column :: "dataframe \<Rightarrow> string \<Rightarrow> scalar list" where
  "column df name = map (\<lambda>ir. cell (snd ir) name) (rows df)"

definition select_rows :: "dataframe \<Rightarrow> bool list \<Rightarrow> dataframe" where
  "select_rows df msk = df\<lparr>rows := map snd (filter fst (zip msk (rows df)))\<rparr>"

section \<open>filter\_engine.py\<close>

definition validate_filter_operator :: "string \<Rightarrow> string \<Rightarrow> bool" where
  "validate_filter_operator operator data_type =
     (let text_operators = [''equals'', ''contains'', ''starts_with'', ''ends_with''];
          numeric_operators = [''equals'', ''greater_than'', ''less_than'', ''between''];
          date_operators = [''equals'', ''before'', ''after'', ''between'']
      in if data_type = ''text'' then operator \<in> set text_operators
         else if data_type = ''numeric'' then operator \<in> set numeric_operators
         else if data_type = ''date'' then operator \<in> set date_operators
         else False)"

text \<open>
  The mask of the \<open>between\<close> branch: a tuple of length two is checked (\<open>value[0] >
  value[1]\<close> raises ValueError) and compared; every other value gives the all-False mask.
\<close>

fun between_mask :: "scalar list \<Rightarrow> pyvalue \<Rightarrow> error + bool list" where
  "between_mask col (PyTuple [lo, hi]) =
     (case py_gt lo hi of
        Inl e \<Rightarrow> Inl e
      | Inr True \<Rightarrow> Inl ValueError
      | Inr False \<Rightarrow>
          (case series_cmp py_ge col lo of
             Inl e \<Rightarrow> Inl e
           | Inr m1 \<Rightarrow> (case series_cmp py_le col hi of
                         Inl e \<Rightarrow> Inl e
                       | Inr m2 \<Rightarrow> Inr (map2 (\<and>) m1 m2))))"
| "between_mask col v = Inr (map (\<lambda>c. False) col)"

text \<open>
  A comparison whose operand is a list or a tuple is pandas's own: what it does depends
  on the storage type of the column (by position, by broadcasting, or with the operand
  as one object), so it is the library's \<open>seq_compare\<close>.
\<close>

fun cmp_mask ::
  "pylib \<Rightarrow> string \<Rightarrow> (scalar \<Rightarrow> scalar \<Rightarrow> error + bool) \<Rightarrow> scalar list \<Rightarrow> pyvalue
     \<Rightarrow> error + bool list" where
  "cmp_mask L op cmp col (Scalar v) = series_cmp cmp col v"
| "cmp_mask L op cmp col (PyList vs) = seq_compare L op col vs"
| "cmp_mask L op cmp col (PyTuple vs) = seq_compare L op col vs"

text \<open>The \<open>equals\<close> branch: \<open>isin\<close> for a list, \<open>==\<close> for anything else.\<close>

fun equals_mask :: "pylib \<Rightarrow> scalar list \<Rightarrow> pyvalue \<Rightarrow> error + bool list" where
  "equals_mask L col (PyList vs) = Inr (isin col vs)"
| "equals_mask L col (Scalar v) = Inr (series_eq col v)"
| "equals_mask L col (PyTuple vs) = seq_compare L ''=='' col vs"

definition apply_single_filter ::
  "pylib \<Rightarrow> dataframe \<Rightarrow> string \<Rightarrow> string \<Rightarrow> pyvalue \<Rightarrow> string \<Rightarrow> error + dataframe" where
  "apply_single_filter L df column_name operator val data_type =
     (if column_name \<notin> set (columns df) then Inr df
      else
        let col = column df column_name;
            masked = (\<lambda>m. case m of Inl e \<Rightarrow> Inl e | Inr msk \<Rightarrow> Inr (select_rows df msk))
        in if operator = ''equals'' then masked (equals_mask L col val)
           else if operator = ''contains'' then
             masked (str_contains L (map (astype_str L) col) (value_str L val))
           else if operator = ''starts_with'' then
             masked (Inr (str_startswith (map (astype_str L) col) (value_str L val)))
           else if operator = ''ends_with'' then
             masked (Inr (str_endswith (map (astype_str L) col) (value_str L val)))
           else if operator = ''greater_than'' then masked (cmp_mask L ''>'' py_gt col val)
           else if operator = ''less_than'' then masked (cmp_mask L ''<'' py_lt col val)
           else if operator = ''between'' then masked (between_mask col val)
           else if operator = ''before'' then masked (cmp_mask L ''<'' py_lt col val)
           else if operator = ''after'' then masked (cmp_mask L ''>'' py_gt col val)
           else Inr df)"

text \<open>
  A filter condition is a dictionary read with \<open>.get\<close>: a key that is absent reads
  as \<open>None\<close> (for \<open>value\<close>, as the scalar \<open>None\<close>).
\<close>

record condition =
  c_column_name :: "string option"
  c_operator :: "string option"
  c_value :: pyvalue
  c_data_type :: "string option"
  c_is_active :: "bool option"

text \<open>\<open>s.upper()\<close>, on ASCII letters.\<close>

definition upper_char :: "char \<Rightarrow> char" where
  "upper_char c =
     (case map_of (zip ''abcdefghijklmnopqrstuvwxyz'' ''ABCDEFGHIJKLMNOPQRSTUVWXYZ'') c of
        None \<Rightarrow> c
      | Some u \<Rightarrow> u)"

definition py_upper :: "string \<Rightarrow> string" where
  "py_upper s = map upper_char s"

text \<open>\<open>result_df.index.isin(filtered.index)\<close>: the rows whose index label survived.\<close>

definition index_isin :: "dataframe \<Rightarrow> dataframe \<Rightarrow> bool list" where
  "index_isin result_df filtered = map (\<lambda>ir. fst ir \<in> set (map fst (rows filtered))) (rows result_df)"

text \<open>
  The loop over the conditions: a condition with a non-empty column and an operator
  gives a mask, the others are skipped, and the first error ends the loop.
\<close>

fun condition_masks :: "pylib \<Rightarrow> dataframe \<Rightarrow> condition list \<Rightarrow> error + bool list list" where
  "condition_masks L result_df [] = Inr []"
| "condition_masks L result_df (cond # rest) =
     (let val = c_value cond;
          dtype = (case c_data_type cond of None \<Rightarrow> ''text'' | Some d \<Rightarrow> d)
      in case (c_column_name cond, c_operator cond) of
           (Some col, Some op) \<Rightarrow>
             (if col \<noteq> [] then
                (case apply_single_filter L result_df col op val dtype of
                   Inl e \<Rightarrow> Inl e
                 | Inr filtered \<Rightarrow>
                     (case condition_masks L result_df rest of
                        Inl e \<Rightarrow> Inl e
                      | Inr masks \<Rightarrow> Inr (index_isin result_df filtered # masks)))
              else condition_masks L result_df rest)
         | _ \<Rightarrow> condition_masks L result_df rest)"

definition apply_multiple_filters ::
  "pylib \<Rightarrow> dataframe \<Rightarrow> condition list \<Rightarrow> string \<Rightarrow> error + dataframe" where
  "apply_multiple_filters L df filter_conditions logic_operator =
     (if filter_conditions = [] then Inr df
      else if length filter_conditions > 10 then Inl ValueError
      else
        (case condition_masks L df filter_conditions of
           Inl e \<Rightarrow> Inl e
         | Inr [] \<Rightarrow> Inr df
         | Inr (m0 # ms) \<Rightarrow>
             (if py_upper logic_operator = ''OR''
              then Inr (select_rows df (foldl (map2 (\<or>)) m0 ms))
              else Inr (select_rows df (foldl (map2 (\<and>)) m0 ms)))))"

section \<open>data\_processor.py\<close>

text \<open>
  Type detection reads a frame column by column: a column is its storage type and its
  values, and the frame is given as its list of named columns.
\<close>

datatype dtype = Datetime64 | DatetimeTZ | Object | StringDtype | Int64 | Float64 | Bool
  | Category | Timedelta

record series =
  s_dtype :: dtype
  s_values :: "scalar list"

definition is_datetime64_any_dtype :: "dtype \<Rightarrow> bool" where
  "is_datetime64_any_dtype d = (d = Datetime64 \<or> d = DatetimeTZ)"

definition is_numeric_dtype :: "dtype \<Rightarrow> bool" where
  "is_numeric_dtype d = (d = Int64 \<or> d = Float64 \<or> d = Bool)"

definition dropna :: "scalar list \<Rightarrow> scalar list" where
  "dropna vs = filter (\<lambda>c. \<not> isnull c) vs"

text \<open>
  The body of the loop of \<open>detect_column_types\<close>, for one column. The parser's
  failure is the ValueError or TypeError that the code catches.
\<close>

definition detect_column_type :: "pylib \<Rightarrow> series \<Rightarrow> string" where
  "detect_column_type L s =
     (let col_data = dropna (s_values s)
      in if length col_data = 0 then ''text''
         else if is_datetime64_any_dtype (s_dtype s) then ''date''
         else if s_dtype s = Object then
           (let sample_values = map (scalar_str L) (take 10 col_data)
            in if to_datetime_series L sample_values then ''date''
               else if is_numeric_dtype (s_dtype s) then ''numeric''
               else ''text'')
         else if is_numeric_dtype (s_dtype s) then ''numeric''
         else ''text'')"

definition detect_column_types :: "pylib \<Rightarrow> (string \<times> series) list \<Rightarrow> (string \<times> string) list" where
  "detect_column_types L df = map (\<lambda>(col, s). (col, detect_column_type L s)) df"



text \<open>
  \<open>pd.DataFrame.from_dict(records)\<close> of a list of dictionaries. The columns are the
  keys in the order in which they first appear, the index is \<open>0, 1, \<dots>\<close>, and a key
  that a record lacks reads as NaN. What a column stores depends on its values:
  \<^item> numbers and nulls, not all \<open>None\<close>, with a null or a number that is not whole among
    them: a float64 array, where \<open>None\<close> becomes NaN and every number becomes its
    float64 value;
  \<^item> whole numbers only: an integer array, which keeps them as they are (integers
    beyond 64 bits are outside the model);
  \<^item> timestamps and nulls, with a timestamp among them: a datetime array, where
    \<open>None\<close> becomes the missing timestamp (NaN here);
  \<^item> anything else: the objects as they are.
\<close>

definition first_keys :: "row list \<Rightarrow> string list" where
  "first_keys records = rev (remdups (rev (concat (map (map fst) records))))"

definition is_num :: "scalar \<Rightarrow> bool" where
  "is_num c = (case c of Num x \<Rightarrow> True | _ \<Rightarrow> False)"

definition is_timestamp :: "scalar \<Rightarrow> bool" where
  "is_timestamp c = (case c of Timestamp t \<Rightarrow> True | _ \<Rightarrow> False)"


definition not_whole :: "scalar \<Rightarrow> bool" where
  "not_whole c = (case c of Num x \<Rightarrow> of_int \<lfloor>x\<rfloor> \<noteq> x | _ \<Rightarrow> False)"

definition float_column :: "scalar list \<Rightarrow> bool" where
  "float_column vs =
     (list_all (\<lambda>c. is_num c \<or> isnull c) vs \<and> \<not> list_all (\<lambda>c. c = PyNone) vs
      \<and> (list_ex isnull vs \<or> list_ex not_whole vs))"

definition datetime_column :: "scalar list \<Rightarrow> bool" where
  "datetime_column vs =
     (list_all (\<lambda>c. is_timestamp c \<or> isnull c) vs \<and> list_ex is_timestamp vs)"

text \<open>What a cell becomes in a float column, in a datetime column and elsewhere.\<close>

definition stored :: "pylib \<Rightarrow> bool \<Rightarrow> bool \<Rightarrow> scalar \<Rightarrow> scalar" where
  "stored L in_float in_datetime v =
     (if in_float then (case v of PyNone \<Rightarrow> NaN | Num x \<Rightarrow> Num (float64 L x) | _ \<Rightarrow> v)
      else if in_datetime then (if v = PyNone then NaN else v)
      else v)"

definition from_dict :: "pylib \<Rightarrow> row list \<Rightarrow> dataframe" where
  "from_dict L records =
     (let cols = first_keys records;
          values_of = (\<lambda>c. map (\<lambda>r. cell r c) records);
          store = (\<lambda>r. map (\<lambda>c. (c, stored L (float_column (values_of c))
                                         (datetime_column (values_of c)) (cell r c))) cols)
      in \<lparr>columns = cols, rows = zip [0..<length records] (map store records)\<rparr>)"

section \<open>app.py: the filter set and the callbacks that add to it\<close>

record table_data =
  dataframe_json :: "row list"
  column_names :: "string list"
  column_types :: "(string \<times> string) list"
  row_count :: nat

record filter_set =
  fs_conditions :: "condition list"
  fs_logic_operator :: string
  fs_result_count :: "nat option"

text \<open>The status message a callback shows.\<close>

datatype status = NoDataLoaded | PleaseSelect | InvalidOperator | InvalidNumericValue
  | InvalidDateFormat | FilterApplied | NoResultsMatch | ErrorApplyingFilter error
  | ConditionAdded | MaximumConditions

definition empty_filter_set :: filter_set where
  "empty_filter_set = \<lparr>fs_conditions = [], fs_logic_operator = ''AND'', fs_result_count = None\<rparr>"

text \<open>\<open>float(v)\<close> and \<open>pd.to_datetime(v)\<close> of a scalar.\<close>

fun float_of :: "pylib \<Rightarrow> scalar \<Rightarrow> error + scalar" where
  "float_of L (Num x) = Inr (Num x)"
| "float_of L NaN = Inr NaN"
| "float_of L (Str s) = (case py_float L s of None \<Rightarrow> Inl ValueError | Some x \<Rightarrow> Inr (Num x))"
| "float_of L PyNone = Inl TypeError"
| "float_of L (Timestamp t) = Inl TypeError"

definition datetime_of :: "pylib \<Rightarrow> scalar \<Rightarrow> error + scalar" where
  "datetime_of L v = (case to_datetime L v of None \<Rightarrow> Inl ValueError | Some t \<Rightarrow> Inr t)"

text \<open>
  The conversions of \<open>_apply_filter_set_to_df\<close>, each inside \<open>try \<dots> except Exception:
  pass\<close>: when a conversion raises, the value stays as it was. A tuple is rebuilt from
  its first two entries.
\<close>

fun convert_value :: "(scalar \<Rightarrow> error + scalar) \<Rightarrow> pyvalue \<Rightarrow> pyvalue" where
  "convert_value f (PyList vs) =
     (case collect (map f vs) of Inl e \<Rightarrow> PyList vs | Inr ws \<Rightarrow> PyList ws)"
| "convert_value f (PyTuple (a # b # rest)) =
     (case f a of
        Inl e \<Rightarrow> PyTuple (a # b # rest)
      | Inr a' \<Rightarrow> (case f b of Inl e \<Rightarrow> PyTuple (a # b # rest) | Inr b' \<Rightarrow> PyTuple [a', b']))"
| "convert_value f (PyTuple vs) = PyTuple vs"
| "convert_value f (Scalar v) = (case f v of Inl e \<Rightarrow> Scalar v | Inr w \<Rightarrow> Scalar w)"

definition get_type :: "(string \<times> string) list \<Rightarrow> string option \<Rightarrow> string" where
  "get_type types col =
     (case col of None \<Rightarrow> ''text''
      | Some c \<Rightarrow> (case map_of types c of None \<Rightarrow> ''text'' | Some t \<Rightarrow> t))"

definition truthy :: "string option \<Rightarrow> bool" where
  "truthy s = (case s of None \<Rightarrow> False | Some x \<Rightarrow> x \<noteq> [])"

text \<open>The condition that \<open>_apply_filter_set_to_df\<close> hands to the engine for \<open>cond\<close>.\<close>

definition engine_condition :: "pylib \<Rightarrow> (string \<times> string) list \<Rightarrow> condition \<Rightarrow> condition" where
  "engine_condition L types cond =
     (let col = c_column_name cond;
          op = c_operator cond;
          val = c_value cond;
          dtype = (case c_data_type cond of
                     None \<Rightarrow> get_type types col
                   | Some d \<Rightarrow> if d \<noteq> [] then d else get_type types col);
          val' = (if dtype = ''numeric'' then convert_value (float_of L) val
                  else if dtype = ''date'' then convert_value (datetime_of L) val
                  else val)
      in \<lparr>c_column_name = col, c_operator = op, c_value = val', c_data_type = Some dtype,
          c_is_active = None\<rparr>)"

definition apply_filter_set_to_df ::
  "pylib \<Rightarrow> dataframe \<Rightarrow> filter_set option \<Rightarrow> (string \<times> string) list \<Rightarrow> error + dataframe" where
  "apply_filter_set_to_df L df current_filter_set types =
     (case current_filter_set of
        None \<Rightarrow> Inr df
      | Some fs \<Rightarrow>
          if fs_conditions fs = [] then Inr df
          else
            let conditions = fs_conditions fs;
                logic = fs_logic_operator fs;
                filter_conditions =
                  map (engine_condition L types)
                    (filter (\<lambda>cond. truthy (c_column_name cond) \<and> truthy (c_operator cond)) conditions)
            in if filter_conditions = [] then Inr df
               else apply_multiple_filters L df filter_conditions logic)"

text \<open>
  Both callbacks pick the value from the three inputs in the same way, and refuse an
  input that lacks a column, an operator or a value.
\<close>

definition actual_value_of ::
  "string option \<Rightarrow> scalar \<Rightarrow> scalar list option \<Rightarrow> scalar \<Rightarrow> pyvalue" where
  "actual_value_of operator filter_value filter_value_multi filter_value2 =
     (case (operator, filter_value_multi) of
        (Some ''equals'', Some multi) \<Rightarrow> PyList multi
      | _ \<Rightarrow> if operator = Some ''between'' then PyTuple [filter_value, filter_value2]
             else Scalar filter_value)"

definition missing_input :: "string option \<Rightarrow> string option \<Rightarrow> pyvalue \<Rightarrow> bool" where
  "missing_input column_name operator actual_value =
     (\<not> truthy column_name \<or> \<not> truthy operator \<or> actual_value = Scalar PyNone
      \<or> actual_value = PyList [])"

text \<open>
  The conversion of the value in \<open>apply_column_filter\<close>. Its result
  (\<open>filter_value_typed\<close>) is never read; what the callback depends on is whether a
  conversion raises. \<open>None\<close> entries are skipped or replaced and cannot raise.
\<close>

definition is_error :: "error + 'a \<Rightarrow> bool" where
  "is_error r = (case r of Inl e \<Rightarrow> True | Inr x \<Rightarrow> False)"

fun conversion_raises :: "(scalar \<Rightarrow> error + scalar) \<Rightarrow> pyvalue \<Rightarrow> bool" where
  "conversion_raises f (PyList vs) = list_ex (\<lambda>v. v \<noteq> PyNone \<and> is_error (f v)) vs"
| "conversion_raises f (PyTuple vs) = list_ex (\<lambda>v. v \<noteq> PyNone \<and> is_error (f v)) (take 2 vs)"
| "conversion_raises f (Scalar v) = (v \<noteq> PyNone \<and> is_error (f v))"

definition new_condition :: "string \<Rightarrow> string \<Rightarrow> pyvalue \<Rightarrow> string \<Rightarrow> condition" where
  "new_condition col op actual_value dtype =
     \<lparr>c_column_name = Some col, c_operator = Some op, c_value = actual_value,
      c_data_type = Some dtype, c_is_active = Some True\<rparr>"

text \<open>
  Replace-or-append: \<open>[c for c in conditions if c.get('column_name') != column_name]\<close>
  and then \<open>append\<close>.
\<close>

definition replace_condition :: "condition list \<Rightarrow> string \<Rightarrow> condition \<Rightarrow> condition list" where
  "replace_condition conditions col filter_condition =
     filter (\<lambda>c. c_column_name c \<noteq> Some col) conditions @ [filter_condition]"

text \<open>
  \<open>apply_column_filter\<close> returns the filter set for the store and the status message
  (the table and the row count go to the display and are not modelled; the display code
  is taken not to raise). Inside \<open>try\<close> the callback writes the logic operator and the new
  list of conditions into \<open>current_filter_set\<close> before it evaluates; the \<open>except\<close>
  branch returns \<open>current_filter_set\<close> as it is by then.
\<close>

definition apply_column_filter ::
  "pylib \<Rightarrow> string option \<Rightarrow> string option \<Rightarrow> scalar \<Rightarrow> scalar list option \<Rightarrow> scalar
     \<Rightarrow> string option \<Rightarrow> table_data option \<Rightarrow> filter_set option \<Rightarrow> filter_set \<times> status" where
  "apply_column_filter L column_name operator filter_value filter_value_multi filter_value2
       logic_operator td current_filter_set =
     (let cfs = (case current_filter_set of None \<Rightarrow> empty_filter_set | Some fs \<Rightarrow> fs)
      in case td of
           None \<Rightarrow> (cfs, NoDataLoaded)
         | Some table \<Rightarrow>
             let actual_value = actual_value_of operator filter_value filter_value_multi filter_value2
             in if missing_input column_name operator actual_value then (cfs, PleaseSelect)
                else
                  case (column_name, operator) of
                    (Some col, Some op) \<Rightarrow>
                  let df = from_dict L (dataframe_json table);
                      dtype = get_type (column_types table) column_name
                  in if \<not> validate_filter_operator op dtype then (cfs, InvalidOperator)
                     else if dtype = ''numeric'' \<and> conversion_raises (float_of L) actual_value
                       then (cfs, InvalidNumericValue)
                     else if dtype = ''date'' \<and> conversion_raises (datetime_of L) actual_value
                       then (cfs, InvalidDateFormat)
                     else
                       let chosen = (case logic_operator of
                                       None \<Rightarrow> fs_logic_operator cfs
                                     | Some lo \<Rightarrow> if lo = ''AND'' \<or> lo = ''OR'' then lo
                                                 else fs_logic_operator cfs);
                           logic_operator_effective =
                             (if chosen = ''AND'' \<or> chosen = ''OR'' then chosen else ''AND'');
                           cfs1 = cfs\<lparr>fs_logic_operator := logic_operator_effective\<rparr>;
                           filter_condition = new_condition col op actual_value dtype;
                           conditions = replace_condition (fs_conditions cfs1) col filter_condition;
                           cfs2 = cfs1\<lparr>fs_conditions := conditions\<rparr>
                       in case apply_filter_set_to_df L df (Some cfs2) (column_types table) of
                            Inl e \<Rightarrow> (cfs2, ErrorApplyingFilter e)
                          | Inr filtered_df \<Rightarrow>
                              (\<lparr>fs_conditions = conditions,
                                fs_logic_operator = logic_operator_effective,
                                fs_result_count = Some (length (rows filtered_df))\<rparr>,
                               if length (rows filtered_df) = 0 then NoResultsMatch
                               else FilterApplied)
                  | _ \<Rightarrow> (cfs, PleaseSelect))"

text \<open>
  \<open>add_filter_condition\<close> records a condition without evaluating it. It builds the
  new list beside \<open>current_filter_set\<close> and gives the old set back when the list would
  pass \<open>MAX_CONDITIONS\<close>.
\<close>

definition MAX_CONDITIONS :: nat where
  "MAX_CONDITIONS = 10"

definition add_filter_condition ::
  "string option \<Rightarrow> string option \<Rightarrow> scalar \<Rightarrow> scalar list option \<Rightarrow> scalar
     \<Rightarrow> table_data option \<Rightarrow> filter_set option \<Rightarrow> filter_set \<times> status" where
  "add_filter_condition column_name operator filter_value filter_value_multi filter_value2
       td current_filter_set =
     (let cfs = (case current_filter_set of None \<Rightarrow> empty_filter_set | Some fs \<Rightarrow> fs)
      in case td of
           None \<Rightarrow> (cfs, NoDataLoaded)
         | Some table \<Rightarrow>
             let actual_value = actual_value_of operator filter_value filter_value_multi filter_value2
             in if missing_input column_name operator actual_value then (cfs, PleaseSelect)
                else
                  case (column_name, operator) of
                    (Some col, Some op) \<Rightarrow>
                  let dtype = get_type (column_types table) column_name
                  in if \<not> validate_filter_operator op dtype then (cfs, InvalidOperator)
                     else
                       let filter_condition = new_condition col op actual_value dtype;
                           conditions = replace_condition (fs_conditions cfs) col filter_condition
                       in if length conditions > MAX_CONDITIONS then (cfs, MaximumConditions)
                          else (\<lparr>fs_conditions = conditions,
                                 fs_logic_operator = fs_logic_operator cfs,
                                 fs_result_count = Some 0\<rparr>, ConditionAdded)
                  | _ \<Rightarrow> (cfs, PleaseSelect))"

section \<open>Concrete data\<close>

text \<open>The five-row table of the tests (\<open>sample_df\<close> without its Date column).\<close>

definition person :: "string \<Rightarrow> real \<Rightarrow> real \<Rightarrow> string \<Rightarrow> string \<Rightarrow> row" where
  "person name age amount status city =
     [(''Name'', Str name), (''Age'', Num age), (''Amount'', Num amount),
      (''Status'', Str status), (''City'', Str city)]"

definition alice :: row where
  "alice = person ''Alice'' 25 1000.5 ''Active'' ''Tokyo''"

definition bob :: row where
  "bob = person ''Bob'' 30 2000.0 ''Inactive'' ''Osaka''"

definition charlie :: row where
  "charlie = person ''Charlie'' 35 1500.75 ''Active'' ''Tokyo''"

definition david :: row where
  "david = person ''David'' 28 3000.0 ''Active'' ''Kyoto''"

definition eve :: row where
  "eve = person ''Eve'' 32 2500.5 ''Inactive'' ''Osaka''"

definition sample_df :: dataframe where
  "sample_df =
     \<lparr>columns = [''Name'', ''Age'', ''Amount'', ''Status'', ''City''],
      rows = [(0, alice), (1, bob), (2, charlie), (3, david), (4, eve)]\<rparr>"

definition sample_table :: table_data where
  "sample_table =
     \<lparr>dataframe_json = [alice, bob, charlie, david, eve],
      column_names = [''Name'', ''Age'', ''Amount'', ''Status'', ''City''],
      column_types = [(''Name'', ''text''), (''Age'', ''numeric''), (''Amount'', ''numeric''),
                      (''Status'', ''text''), (''City'', ''text'')],
      row_count = 5\<rparr>"

text \<open>
  A library instance for the concrete runs. \<open>float\<close> reads an unsigned decimal
  integer literal, as Python does; a null cell prints as \<open>'None'\<close> or \<open>'nan'\<close> under
  \<open>astype(str)\<close>; \<open>str(20240101)\<close> is \<open>'20240101'\<close>, which \<open>pd.to_datetime\<close> reads as
  a date; the float64 value of \<open>2^53 + 1\<close> is \<open>2^53\<close>, and the other numbers of the
  runs below are float64 values already. The other entries are not consulted by the
  runs below.
\<close>

fun digits_value :: "nat \<Rightarrow> string \<Rightarrow> nat option" where
  "digits_value acc [] = Some acc"
| "digits_value acc (c # cs) =
     (case map_of (zip ''0123456789'' [0, 1, 2, 3, 4, 5, 6, 7, 8, 9]) c of
        None \<Rightarrow> None
      | Some d \<Rightarrow> digits_value (10 * acc + d) cs)"

definition float_of_digits :: "string \<Rightarrow> real option" where
  "float_of_digits s = (if s = [] then None else map_option real (digits_value 0 s))"

definition test_lib :: pylib where
  "test_lib =
     \<lparr>py_float = float_of_digits,
      num_str = (\<lambda>x. if x = 20240101 then ''20240101'' else []),
      ts_str = (\<lambda>t. []),
      seq_str = (\<lambda>v. []),
      null_astype = (\<lambda>c. if c = PyNone then Some ''None'' else Some ''nan''),
      re_compile = (\<lambda>pat. None),
      float64 = (\<lambda>x. if x = 9007199254740993 then 9007199254740992 else x),
      seq_compare = (\<lambda>op col vs. Inl ValueError),
      to_datetime = (\<lambda>v. None),
      to_datetime_series = (\<lambda>ss. list_all (\<lambda>s. s = ''20240101'') ss)\<rparr>"

text \<open>Two conditions on the sample table: Status is Active, City is Tokyo.\<close>

definition status_city :: "condition list" where
  "status_city =
     [\<lparr>c_column_name = Some ''Status'', c_operator = Some ''equals'',
       c_value = Scalar (Str ''Active''), c_data_type = Some ''text'', c_is_active = None\<rparr>,
      \<lparr>c_column_name = Some ''City'', c_operator = Some ''equals'',
       c_value = Scalar (Str ''Tokyo''), c_data_type = Some ''text'', c_is_active = None\<rparr>]"


definition name_none_df :: dataframe where
  "name_none_df =
     \<lparr>columns = [''Name''],
      rows = [(0, [(''Name'', Str ''Charlie'')]), (1, [(''Name'', PyNone)])]\<rparr>"

text \<open>
  A stored filter set with one condition, as \<open>apply_column_filter\<close> leaves it after
  "Status equals Active" under OR on the sample table.
\<close>

definition active_only :: filter_set where
  "active_only =
     \<lparr>fs_conditions = [new_condition ''Status'' ''equals'' (Scalar (Str ''Active'')) ''text''],
      fs_logic_operator = ''OR'', fs_result_count = Some 3\<rparr>"

text \<open>
  A one-row table with the eleven text columns \<open>a\<close> to \<open>k\<close>, and the filter set that
  ten calls of \<open>add_filter_condition\<close>, one for each of the columns \<open>a\<close> to \<open>j\<close>, build
  from the empty set.
\<close>

definition wide_table :: table_data where
  "wide_table =
     \<lparr>dataframe_json = [map (\<lambda>c. ([c], Str ''x'')) ''abcdefghijk''],
      column_names = map (\<lambda>c. [c]) ''abcdefghijk'',
      column_types = map (\<lambda>c. ([c], ''text'')) ''abcdefghijk'',
      row_count = 1\<rparr>"

definition add_x :: "filter_set \<Rightarrow> char \<Rightarrow> filter_set" where
  "add_x fs c =
     fst (add_filter_condition (Some [c]) (Some ''equals'') (Str ''x'') None PyNone
            (Some wide_table) (Some fs))"

definition ten_conditions :: filter_set where
  "ten_conditions = foldl add_x empty_filter_set ''abcdefghij''"

text \<open>The conditions of the stored filter set (none when the store is empty).\<close>

definition conditions_of :: "filter_set option \<Rightarrow> condition list" where
  "conditions_of current_filter_set =
     (case current_filter_set of None \<Rightarrow> [] | Some fs \<Rightarrow> fs_conditions fs)"



text \<open>
  Type inference as the specification words it (section 4.1), to compare with
  \<open>detect_column_type\<close>: after the all-null and the date-storage cases, the first ten
  non-null values are tried as dates whatever the storage type is, and a column is
  numeric when all its non-null values are numbers.
\<close>

definition infer_as_specified :: "pylib \<Rightarrow> series \<Rightarrow> string" where
  "infer_as_specified L s =
     (let non_null = dropna (s_values s)
      in if non_null = [] then ''text''
         else if is_datetime64_any_dtype (s_dtype s) then ''date''
         else if to_datetime_series L (map (scalar_str L) (take 10 non_null)) then ''date''
         else if list_all is_num non_null then ''numeric''
         else ''text'')"




section \<open>Properties of the engine\<close>

lemmas frame_defs = sample_df_def alice_def bob_def charlie_def david_def eve_def person_def

lemmas engine_defs = apply_single_filter_def column_def cell_def select_rows_def isnull_def

lemma select_map: "map snd (filter fst (zip (map f xs) xs)) = filter f xs"
  by (induction xs) auto

lemma select_none: "map snd (filter fst (zip (map (\<lambda>c. False) xs) ys)) = []"
proof (induction xs arbitrary: ys)
  case Nil
  then show ?case by simp
next
  case (Cons x xs)
  then show ?case by (cases ys) auto
qed

lemma select_rows_column:
  "select_rows df (map P (column df name))
     = df\<lparr>rows := filter (\<lambda>ir. P (cell (snd ir) name)) (rows df)\<rparr>"
  by (simp add: select_rows_def column_def o_def select_map)

lemma select_rows_false: "select_rows df (map (\<lambda>c. False) col) = df\<lparr>rows := []\<rparr>"
  by (simp add: select_rows_def select_none)

lemma upper_AND: "py_upper ''AND'' \<noteq> ''OR''"
  by (simp add: py_upper_def upper_char_def)

lemma upper_OR: "py_upper ''OR'' = ''OR''"
  by (simp add: py_upper_def upper_char_def)

subsection \<open>The range filter on the sample table\<close>

text \<open>
  C5 (as amended). On the five-row table, \<open>between\<close> on Amount with (1500, 2500) keeps
  exactly two rows: Bob (2000.0) and Charlie (1500.75). Eve's 2500.5 is above the upper
  endpoint and is not kept.
\<close>

theorem between_amount_keeps_bob_charlie:
  "apply_single_filter L sample_df ''Amount'' ''between'' (PyTuple [Num 1500, Num 2500]) ''numeric''
     = Inr (sample_df\<lparr>rows := [(1, bob), (2, charlie)]\<rparr>)"
  by (simp add: engine_defs frame_defs py_gt_def py_ge_def series_cmp_def)

text \<open>The rows the claim names, Charlie and Eve, are not the result.\<close>

theorem between_amount_not_charlie_eve:
  "apply_single_filter test_lib sample_df ''Amount'' ''between''
       (PyTuple [Num 1500, Num 2500]) ''numeric''
     \<noteq> Inr (sample_df\<lparr>rows := [(2, charlie), (4, eve)]\<rparr>)"
  by (simp add: engine_defs frame_defs py_gt_def py_ge_def series_cmp_def)

subsection \<open>A range filter whose value is not a pair\<close>

text \<open>
  C10. On a column of the frame, \<open>between\<close> with a value that is not a tuple of length
  two (a list, a scalar, a tuple of another length) returns the frame with no rows, and
  does not raise.
\<close>

theorem between_without_pair_is_empty:
  assumes "column_name \<in> set (columns df)" and "\<forall>a b. val \<noteq> PyTuple [a, b]"
  shows "apply_single_filter L df column_name ''between'' val data_type = Inr (df\<lparr>rows := []\<rparr>)"
proof -
  have "between_mask (column df column_name) val = Inr (map (\<lambda>c. False) (column df column_name))"
    using assms(2) by (cases "(column df column_name, val)" rule: between_mask.cases) auto
  then show ?thesis
    using assms(1) by (simp add: apply_single_filter_def select_rows_false)
qed

theorem between_without_pair_is_empty_witness:
  "''Amount'' \<in> set (columns sample_df)
   \<and> (\<forall>a b. PyList [Num 1500, Num 2500] \<noteq> PyTuple [a, b])
   \<and> apply_single_filter test_lib sample_df ''Amount'' ''between''
         (PyList [Num 1500, Num 2500]) ''numeric'' = Inr (sample_df\<lparr>rows := []\<rparr>)"
proof -
  have h1: "''Amount'' \<in> set (columns sample_df)"
    by (simp add: sample_df_def)
  have h2: "\<forall>a b. PyList [Num 1500, Num 2500] \<noteq> PyTuple [a, b]"
    by simp
  show ?thesis
    using h1 h2 between_without_pair_is_empty [OF h1 h2, of test_lib "''numeric''"] by simp
qed

subsection \<open>AND keeps no more than OR\<close>

lemma select_subseq:
  "length a = length rs \<Longrightarrow> length b = length rs \<Longrightarrow> (\<forall>i<length rs. a ! i \<longrightarrow> b ! i)
   \<Longrightarrow> subseq (map snd (filter fst (zip a rs))) (map snd (filter fst (zip b rs)))"
proof (induction rs arbitrary: a b)
  case Nil
  then show ?case by simp
next
  case (Cons r rs)
  then obtain x a' y b' where ab: "a = x # a'" "b = y # b'"
    by (metis length_Suc_conv)
  have "\<forall>i<length rs. a' ! i \<longrightarrow> b' ! i"
    using Cons.prems(3) ab by auto
  then have IH: "subseq (map snd (filter fst (zip a' rs))) (map snd (filter fst (zip b' rs)))"
    using Cons.IH [of a' b'] Cons.prems ab by simp
  have "x \<longrightarrow> y"
    using Cons.prems(3) ab by auto
  with IH ab show ?case by auto
qed

lemma fold_and_or:
  "\<forall>m\<in>set ms. length m = n \<Longrightarrow> length a = n \<Longrightarrow> length b = n \<Longrightarrow> (\<forall>i<n. a ! i \<longrightarrow> b ! i)
   \<Longrightarrow> length (foldl (map2 (\<and>)) a ms) = n \<and> length (foldl (map2 (\<or>)) b ms) = n
       \<and> (\<forall>i<n. foldl (map2 (\<and>)) a ms ! i \<longrightarrow> foldl (map2 (\<or>)) b ms ! i)"
proof (induction ms arbitrary: a b)
  case Nil
  then show ?case by simp
next
  case (Cons m ms)
  have lm: "length m = n"
    using Cons.prems(1) by simp
  have "\<forall>i<n. map2 (\<and>) a m ! i \<longrightarrow> map2 (\<or>) b m ! i"
    using Cons.prems lm by simp
  moreover have "length (map2 (\<and>) a m) = n" "length (map2 (\<or>) b m) = n"
    using Cons.prems lm by simp_all
  ultimately show ?case
    using Cons.IH [of "map2 (\<and>) a m" "map2 (\<or>) b m"] Cons.prems(1) by simp
qed

lemma condition_masks_length:
  "condition_masks L df cs = Inr masks \<Longrightarrow> \<forall>m\<in>set masks. length m = length (rows df)"
proof (induction cs arbitrary: masks)
  case Nil
  then show ?case by simp
next
  case (Cons c cs)
  then show ?case
    by (auto simp: Let_def index_isin_def split: option.splits sum.splits if_splits)
qed

text \<open>
  C7. Whenever \<open>apply_multiple_filters\<close> returns under \<open>'AND'\<close> (which it does only
  for at most ten conditions), it returns under \<open>'OR'\<close> on the same frame and
  conditions, and the rows kept under AND are, in order, among the rows kept under OR;
  so there are no more of them.
\<close>

theorem and_rows_within_or_rows:
  assumes "apply_multiple_filters L df filter_conditions ''AND'' = Inr ra"
  shows "\<exists>ro. apply_multiple_filters L df filter_conditions ''OR'' = Inr ro
           \<and> subseq (rows ra) (rows ro) \<and> length (rows ra) \<le> length (rows ro)"
proof (cases "filter_conditions = [] \<or> condition_masks L df filter_conditions = Inr []")
  case True
  then have "apply_multiple_filters L df filter_conditions ''OR'' = Inr df" "ra = df"
    using assms by (auto simp: apply_multiple_filters_def split: if_splits)
  then show ?thesis by simp
next
  case False
  then obtain m0 ms where masks: "condition_masks L df filter_conditions = Inr (m0 # ms)"
    and short: "\<not> length filter_conditions > 10"
    using assms by (auto simp: apply_multiple_filters_def split: if_splits sum.splits list.splits)
  let ?a = "foldl (map2 (\<and>)) m0 ms" and ?o = "foldl (map2 (\<or>)) m0 ms"
  have ra: "ra = select_rows df ?a"
    using assms False masks short upper_AND by (simp add: apply_multiple_filters_def)
  have ro: "apply_multiple_filters L df filter_conditions ''OR'' = Inr (select_rows df ?o)"
    using False masks short upper_OR by (simp add: apply_multiple_filters_def)
  have "\<forall>m\<in>set (m0 # ms). length m = length (rows df)"
    using condition_masks_length [OF masks] .
  then have "length ?a = length (rows df) \<and> length ?o = length (rows df)
       \<and> (\<forall>i<length (rows df). ?a ! i \<longrightarrow> ?o ! i)"
    using fold_and_or [of ms "length (rows df)" m0 m0] by simp
  then have sub: "subseq (rows (select_rows df ?a)) (rows (select_rows df ?o))"
    using select_subseq [of ?a "rows df" ?o] by (simp add: select_rows_def)
  then have "length (rows (select_rows df ?a)) \<le> length (rows (select_rows df ?o))"
    by (rule list_emb_length)
  with sub ra ro show ?thesis by simp
qed

lemma status_city_masks:
  "condition_masks L sample_df status_city
     = Inr [[True, False, True, True, False], [True, False, True, False, False]]"
  by (simp add: status_city_def engine_defs frame_defs series_eq_def index_isin_def)

theorem and_rows_within_or_rows_witness:
  "apply_multiple_filters test_lib sample_df status_city ''AND''
     = Inr (sample_df\<lparr>rows := [(0, alice), (2, charlie)]\<rparr>)
   \<and> (\<exists>ro. apply_multiple_filters test_lib sample_df status_city ''OR'' = Inr ro
         \<and> subseq [(0, alice), (2, charlie)] (rows ro)
         \<and> length [(0, alice), (2, charlie)] \<le> length (rows ro))"
proof -
  have h: "apply_multiple_filters test_lib sample_df status_city ''AND''
             = Inr (sample_df\<lparr>rows := [(0, alice), (2, charlie)]\<rparr>)"
    by (simp add: apply_multiple_filters_def status_city_masks upper_AND select_rows_def)
       (simp add: status_city_def frame_defs)
  show ?thesis
    using h and_rows_within_or_rows [OF h] by simp
qed

subsection \<open>Equality and membership\<close>




subsection \<open>The text operators\<close>

text \<open>
  What the three branches compute, on a column of the frame: \<open>contains\<close> asks the
  regular-expression search (ignoring case) of each string form, while \<open>starts_with\<close>
  and \<open>ends_with\<close> test a literal prefix and suffix with the case as it is.
\<close>

lemma starts_with_is_literal_prefix:
  "column_name \<in> set (columns df) \<Longrightarrow>
   apply_single_filter L df column_name ''starts_with'' val data_type
     = Inr (df\<lparr>rows := filter (\<lambda>ir. case astype_str L (cell (snd ir) column_name) of
                                        None \<Rightarrow> False
                                      | Some s \<Rightarrow> prefix (value_str L val) s) (rows df)\<rparr>)"
  by (simp add: apply_single_filter_def str_startswith_def select_rows_column)

lemma ends_with_is_literal_suffix:
  "column_name \<in> set (columns df) \<Longrightarrow>
   apply_single_filter L df column_name ''ends_with'' val data_type
     = Inr (df\<lparr>rows := filter (\<lambda>ir. case astype_str L (cell (snd ir) column_name) of
                                        None \<Rightarrow> False
                                      | Some s \<Rightarrow> suffix (value_str L val) s) (rows df)\<rparr>)"
  by (simp add: apply_single_filter_def str_endswith_def select_rows_column)

text \<open>
  C2. The claim asks for tests that ignore case and never match a null cell. On the
  sample table, \<open>starts_with 'c'\<close> on Name keeps no row although Charlie starts with
  \<open>C\<close>, and \<open>ends_with 'E'\<close> keeps no row although Alice, Charlie and Eve end with
  \<open>e\<close>. Where \<open>astype(str)\<close> prints a null cell as \<open>'None'\<close>, \<open>ends_with 'e'\<close> keeps
  the row whose Name is null.
\<close>

theorem starts_ends_with_case_and_null:
  "apply_single_filter test_lib sample_df ''Name'' ''starts_with'' (Scalar (Str ''c'')) ''text''
     = Inr (sample_df\<lparr>rows := []\<rparr>)
   \<and> apply_single_filter test_lib sample_df ''Name'' ''ends_with'' (Scalar (Str ''E'')) ''text''
     = Inr (sample_df\<lparr>rows := []\<rparr>)
   \<and> apply_single_filter test_lib name_none_df ''Name'' ''ends_with'' (Scalar (Str ''e'')) ''text''
     = Inr name_none_df"
  by (simp add: engine_defs frame_defs name_none_df_def astype_str_def str_startswith_def
        str_endswith_def test_lib_def suffix_to_prefix)

section \<open>Properties of type detection and of the snapshot\<close>

text \<open>
  C9 (as amended). A column with no non-null value is text; otherwise a column stored
  as datetime is date; otherwise a column stored as generic objects is date when the
  string forms of its first ten non-null values parse as dates and text when they do
  not; otherwise a column stored as numbers or booleans is numeric; every other column
  is text. The date parser is consulted for object columns only: for any other storage
  type the result is the same under every library. (The function is a function of the
  column alone: it reads the frame and writes nothing.)
\<close>

theorem detect_column_type_by_storage:
  "detect_column_type L s =
     (if dropna (s_values s) = [] then ''text''
      else if s_dtype s = Datetime64 \<or> s_dtype s = DatetimeTZ then ''date''
      else if s_dtype s = Object then
        (if to_datetime_series L (map (scalar_str L) (take 10 (dropna (s_values s))))
         then ''date'' else ''text'')
      else if s_dtype s = Int64 \<or> s_dtype s = Float64 \<or> s_dtype s = Bool then ''numeric''
      else ''text'')
   \<and> (s_dtype s \<noteq> Object \<longrightarrow> detect_column_type L s = detect_column_type L' s)"
  by (simp add: detect_column_type_def Let_def is_datetime64_any_dtype_def is_numeric_dtype_def)

theorem detect_column_type_by_storage_witness:
  "Int64 \<noteq> Object
   \<and> detect_column_type test_lib \<lparr>s_dtype = Int64, s_values = [Num 25, NaN, Num 35]\<rparr>
       = ''numeric''
   \<and> detect_column_type (test_lib\<lparr>to_datetime_series := (\<lambda>ss. True)\<rparr>)
         \<lparr>s_dtype = Int64, s_values = [Num 25, NaN, Num 35]\<rparr> = ''numeric''"
  using detect_column_type_by_storage
          [of test_lib "\<lparr>s_dtype = Int64, s_values = [Num 25, NaN, Num 35]\<rparr>"
              "test_lib\<lparr>to_datetime_series := (\<lambda>ss. True)\<rparr>"]
  by (auto simp: dropna_def isnull_def)

text \<open>
  An integer column holding 20240101: its one sample parses as a date, so the rule as
  the specification words it gives date; the code gives numeric.
\<close>

theorem detect_numeric_storage_skips_dates:
  "detect_column_type test_lib \<lparr>s_dtype = Int64, s_values = [Num 20240101]\<rparr> = ''numeric''
   \<and> infer_as_specified test_lib \<lparr>s_dtype = Int64, s_values = [Num 20240101]\<rparr> = ''date''"
  by (simp add: detect_column_type_def infer_as_specified_def Let_def is_datetime64_any_dtype_def
        is_numeric_dtype_def dropna_def isnull_def test_lib_def)

subsection \<open>Deserializing and serializing again\<close>















section \<open>Properties of the callbacks\<close>

lemmas app_defs = actual_value_of_def missing_input_def truthy_def get_type_def
  validate_filter_operator_def new_condition_def replace_condition_def MAX_CONDITIONS_def
  empty_filter_set_def

subsection \<open>Replace or append\<close>






lemma ten_conditions_value:
  "ten_conditions =
     \<lparr>fs_conditions = map (\<lambda>c. new_condition [c] ''equals'' (Scalar (Str ''x'')) ''text'')
                         ''abcdefghij'',
      fs_logic_operator = ''AND'', fs_result_count = Some 0\<rparr>"
  by (simp add: ten_conditions_def add_x_def add_filter_condition_def wide_table_def app_defs)



subsection \<open>The limit of ten conditions\<close>

text \<open>The two places that enforce the limit do enforce it.\<close>

lemma apply_multiple_filters_refuses_eleven:
  "length filter_conditions > 10 \<Longrightarrow>
     apply_multiple_filters L df filter_conditions logic_operator = Inl ValueError"
  by (auto simp: apply_multiple_filters_def)

lemma add_filter_condition_keeps_limit:
  assumes "length (conditions_of cfs) \<le> 10"
  shows "length (fs_conditions (fst (add_filter_condition column_name operator fv fvm fv2 td cfs)))
           \<le> 10"
  using assms
  by (cases cfs)
     (auto simp: add_filter_condition_def conditions_of_def empty_filter_set_def Let_def
        MAX_CONDITIONS_def split: option.splits if_splits)

lemma add_filter_condition_refusal_keeps_set:
  assumes "add_filter_condition column_name operator fv fvm fv2 td (Some fs)
             = (fs', MaximumConditions)"
  shows "fs' = fs"
  using assms
  by (auto simp: add_filter_condition_def Let_def split: option.splits if_splits)

text \<open>
  C3. The set of ten conditions is reached by ten adds. \<open>apply_column_filter\<close> on an
  eleventh column then fails in evaluation (ValueError: more than ten conditions) and
  hands back a filter set of eleven conditions for the store.
\<close>

theorem apply_column_filter_stores_eleven:
  "length (fs_conditions ten_conditions) = 10
   \<and> apply_column_filter test_lib (Some ''k'') (Some ''equals'') (Str ''x'') None PyNone
        (Some ''AND'') (Some wide_table) (Some ten_conditions)
      = (ten_conditions\<lparr>fs_conditions := fs_conditions ten_conditions
                           @ [new_condition ''k'' ''equals'' (Scalar (Str ''x'')) ''text'']\<rparr>,
         ErrorApplyingFilter ValueError)
   \<and> length (fs_conditions (fst (apply_column_filter test_lib (Some ''k'') (Some ''equals'')
        (Str ''x'') None PyNone (Some ''AND'') (Some wide_table) (Some ten_conditions)))) = 11"
  by (simp add: ten_conditions_value apply_column_filter_def wide_table_def app_defs
        apply_filter_set_to_df_def apply_multiple_filters_def Let_def)

subsection \<open>A range whose endpoints are reversed\<close>

text \<open>The engine raises ValueError on a reversed pair, on a column of the frame.\<close>

lemma between_reversed_raises:
  "column_name \<in> set (columns df) \<Longrightarrow> py_gt lo hi = Inr True \<Longrightarrow>
     apply_single_filter L df column_name ''between'' (PyTuple [lo, hi]) data_type
       = Inl ValueError"
  by (simp add: apply_single_filter_def)

text \<open>
  C1. On the sample table, with "Status equals Active" under OR in the store, the range
  2500 to 1500 on Amount is applied under AND: the evaluation raises ValueError and the
  user sees the error, but the filter set handed back for the store holds the new
  condition and the new logic operator. \<open>add_filter_condition\<close> records the same
  condition without any check.
\<close>

theorem reversed_between_is_recorded:
  "apply_column_filter test_lib (Some ''Amount'') (Some ''between'') (Str ''2500'') None
       (Str ''1500'') (Some ''AND'') (Some sample_table) (Some active_only)
     = (\<lparr>fs_conditions =
           [new_condition ''Status'' ''equals'' (Scalar (Str ''Active'')) ''text'',
            new_condition ''Amount'' ''between'' (PyTuple [Str ''2500'', Str ''1500'']) ''numeric''],
         fs_logic_operator = ''AND'', fs_result_count = Some 3\<rparr>,
        ErrorApplyingFilter ValueError)
   \<and> add_filter_condition (Some ''Amount'') (Some ''between'') (Str ''2500'') None
       (Str ''1500'') (Some sample_table) (Some active_only)
     = (\<lparr>fs_conditions =
           [new_condition ''Status'' ''equals'' (Scalar (Str ''Active'')) ''text'',
            new_condition ''Amount'' ''between'' (PyTuple [Str ''2500'', Str ''1500'']) ''numeric''],
         fs_logic_operator = ''OR'', fs_result_count = Some 0\<rparr>,
        ConditionAdded)"
  by (simp add: apply_column_filter_def add_filter_condition_def sample_table_def active_only_def
        app_defs test_lib_def float_of_digits_def is_error_def apply_filter_set_to_df_def
        engine_condition_def apply_multiple_filters_def from_dict_def first_keys_def
        float_column_def datetime_column_def stored_def not_whole_def is_num_def
        is_timestamp_def frame_defs engine_defs series_eq_def index_isin_def py_gt_def Let_def)

end
